theory Spec2Isabelle
  imports Main
begin

section \<open>Data model\<close>

text \<open>
  The Django models of \<^verbatim>\<open>src/project.py\<close> as records. Primary keys and foreign keys
  are natural numbers; a nullable column is an \<open>option\<close>. Timestamps are seconds on the
  clock of the world below.
\<close>

record project =
  pk :: nat
  organization :: "nat option"
  name :: string
  description :: string
  created_at :: nat
  modified_at :: nat
  deleted_at :: "nat option"
  openstack_id :: string
  billing_contact :: "nat option"
  enabled :: bool
  has_public_co2_reporting :: bool
  keycloak_id :: "string option"
  gardener_id :: "string option"
  gardener_enabled :: bool

datatype role = ADMIN | WRITE | READ

text \<open>
  \<^verbatim>\<open>ProjectMembership\<close>: a row joining a project and a team. The model declares no
  uniqueness of \<open>(project, team)\<close>, so the table is a list of rows that may hold several
  rows for one pair.
\<close>

record project_membership =
  membership_pk :: nat
  project :: nat
  team :: nat
  role :: role

text \<open>
  The user model is defined outside this module; a user is what the querysets and
  the viewset read from it: \<^verbatim>\<open>user.organizations.all()\<close>, \<^verbatim>\<open>user.teams.all()\<close>,
  \<^verbatim>\<open>user.is_admin\<close>, and the permissions for which \<^verbatim>\<open>user.has_perm\<close> answers true.
\<close>

record user =
  user_pk :: nat
  is_admin :: bool
  organizations :: "nat list"
  teams :: "nat list"
  perms :: "string list"

definition has_perm :: "user \<Rightarrow> string \<Rightarrow> bool" where
  "has_perm u p = (p \<in> set (perms u))"

text \<open>
  The database tables the querysets range over. \<open>organization_memberships\<close> holds the
  rows \<open>(organization, user)\<close> reached by
  \<^verbatim>\<open>organization__organization_memberships__user\<close>.
\<close>

record database =
  projects :: "project list"
  project_memberships :: "project_membership list"
  organization_memberships :: "(nat \<times> nat) list"

section \<open>ProjectQuerySet\<close>

text \<open>
  \<^verbatim>\<open>filter(organization__in=...)\<close> compares a foreign key column: one row per project,
  and a project without organization never matches.
\<close>

definition organization_in :: "nat list \<Rightarrow> project \<Rightarrow> bool" where
  "organization_in orgs p =
     (case organization p of None \<Rightarrow> False | Some org \<Rightarrow> org \<in> set orgs)"

text \<open>
  The teams of a project are those its \<^verbatim>\<open>ProjectMembership\<close> rows name.
  \<^verbatim>\<open>filter(teams__in=...)\<close> joins the membership table: a project comes out once for
  every membership row of it whose team is in the list. \<^verbatim>\<open>distinct()\<close> then removes
  the repetitions.
\<close>

definition teams_in :: "database \<Rightarrow> nat list \<Rightarrow> project list \<Rightarrow> project list" where
  "teams_in db ts ps =
     concat (map (\<lambda>p. map (\<lambda>m. p)
                (filter (\<lambda>m. project m = pk p \<and> team m \<in> set ts) (project_memberships db))) ps)"

definition for_user :: "database \<Rightarrow> user \<Rightarrow> project list" where
  "for_user db u =
     (let query_set = filter (organization_in (organizations u)) (projects db)
      in if has_perm u ''core.can_manage_all_organization_projects''
         then remdups query_set
         else remdups (teams_in db (teams u) query_set))"

definition for_user_is_owner_of_organization :: "database \<Rightarrow> user \<Rightarrow> project list" where
  "for_user_is_owner_of_organization db u =
     remdups (concat (map (\<lambda>p. map (\<lambda>om. p)
        (filter (\<lambda>om. organization p = Some (fst om) \<and> snd om = user_pk u)
           (organization_memberships db))) (projects db)))"

section \<open>ProjectViewSet\<close>

text \<open>\<^verbatim>\<open>get_queryset\<close> of the deprecated public endpoint (\<^verbatim>\<open>src/viewset/project.py\<close>).\<close>

definition get_queryset :: "database \<Rightarrow> user \<Rightarrow> project list" where
  "get_queryset db u =
     (if is_admin u then projects db
      else for_user_is_owner_of_organization db u)"

section \<open>Python values, exceptions, dates\<close>

text \<open>
  What the code can raise. \<open>ServiceError\<close> stands for any instance of \<^verbatim>\<open>Exception\<close>
  raised inside an external collaborator (OpenStack client, Gardener service), with
  the name of its class.
\<close>

datatype exn =
    KeyError string
  | TypeError
  | IntegrityError
  | DoesNotExist
  | MultipleObjectsReturned
  | ServiceError string

text \<open>
  A usage item is a dictionary from field names to values; the values read by the code
  are strings (\<^verbatim>\<open>state\<close>) and numbers (\<^verbatim>\<open>memory_mb\<close>, \<^verbatim>\<open>vcpus\<close>). Numbers are
  integers here; floating-point values are outside this development.
\<close>

datatype pyval = PyStr string | PyInt int

type_synonym item = "(string \<times> pyval) list"

type_synonym usage = "item list"

definition getitem :: "item \<Rightarrow> string \<Rightarrow> exn + pyval" where
  "getitem d k = (case map_of d k of None \<Rightarrow> Inl (KeyError k) | Some v \<Rightarrow> Inr v)"

text \<open>A naive \<^verbatim>\<open>datetime\<close>.\<close>

record datetime =
  year :: nat
  month :: nat
  day :: nat
  hour :: nat
  minute :: nat
  second :: nat
  microsecond :: nat

definition digit_char :: "nat \<Rightarrow> char" where
  "digit_char d = ''0123456789'' ! (d mod 10)"

fun decimal :: "nat \<Rightarrow> string" where
  "decimal n = (if n < 10 then [digit_char n] else decimal (n div 10) @ [digit_char n])"

declare decimal.simps [simp del]

definition month_abbr :: "nat \<Rightarrow> string" where
  "month_abbr m =
     (if 1 \<le> m \<and> m \<le> 12
      then [''Jan'', ''Feb'', ''Mar'', ''Apr'', ''May'', ''Jun'',
            ''Jul'', ''Aug'', ''Sep'', ''Oct'', ''Nov'', ''Dec''] ! (m - 1)
      else [])"

text \<open>
  \<^verbatim>\<open>strftime("%Y-%b-%d")\<close> in the C locale: the year in decimal, the abbreviated
  month name, the day of the month on two digits. Nothing below the day is printed.
\<close>

definition strftime_Y_b_d :: "datetime \<Rightarrow> string" where
  "strftime_Y_b_d d =
     decimal (year d) @ ''-'' @ month_abbr (month d) @ ''-'' @
     [digit_char (day d div 10), digit_char (day d)]"

section \<open>The world: database, cache, collaborators\<close>

record tenant =
  tenant_id :: string
  tenant_enabled :: bool

text \<open>Every call that reaches an external collaborator is recorded, in order.\<close>

datatype call =
    Openstack_get_compute_usage_for_project string datetime datetime
  | Openstack_create_project string
  | Openstack_get_project string
  | Gardener_save_project nat
  | Gardener_delete_project nat

text \<open>
  A cache entry is a value and the time at which it expires (\<open>None\<close>: never).
  \<open>clock\<close> counts seconds; \<open>now\<close> is what \<^verbatim>\<open>datetime.now()\<close> reads.
  \<open>membership_pk_seq\<close> is the last primary key the database issued for a membership:
  the sequence only grows, so the key of a deleted row is never issued again, and a
  transaction that is rolled back does not give its keys back.
\<close>

record world =
  db :: database
  cache :: "string \<rightharpoonup> (usage \<times> nat option)"
  calls :: "call list"
  warnings :: "string list"
  clock :: nat
  now :: datetime
  membership_pk_seq :: nat

text \<open>
  Modelled from the spec: the OpenStack client, the Gardener service and the settings
  are defined outside this module, so they are parameters, with the interfaces the
  specification gives them: \<^verbatim>\<open>getComputeUsage(tenantId, start, end) -> UsageList\<close>,
  \<^verbatim>\<open>createTenant(name) -> tenant\<close>, \<^verbatim>\<open>getTenant(id) -> tenant\<close>,
  \<^verbatim>\<open>upsertProject(project)\<close>, \<^verbatim>\<open>deleteProject(project)\<close>. Each collaborator answers
  with a value or raises, and its answer may depend on how many collaborator calls were
  made before (the first argument), so that the same request can be answered differently
  at different moments. The usage source answers with a list; an answer of \<^verbatim>\<open>None\<close>
  is not among its values.
\<close>

record env =
  REPORTING_CACHE_TIMEOUT :: "nat option"
  os_get_compute_usage_for_project :: "nat \<Rightarrow> string \<Rightarrow> datetime \<Rightarrow> datetime \<Rightarrow> exn + usage"
  os_create_project :: "nat \<Rightarrow> string \<Rightarrow> exn + tenant"
  os_get_project :: "nat \<Rightarrow> string \<Rightarrow> exn + tenant"
  gardener_save_project :: "nat \<Rightarrow> project \<Rightarrow> exn option"
  gardener_delete_project :: "nat \<Rightarrow> project \<Rightarrow> exn option"

text \<open>
  The framework cache, after Django's \<^verbatim>\<open>cache.get\<close> and \<^verbatim>\<open>cache.set\<close>: an entry is
  visible until its expiry time is reached; \<^verbatim>\<open>set\<close> with a timeout of \<open>t\<close> seconds
  expires \<open>t\<close> seconds from now, and with no timeout never.
\<close>

definition cache_get :: "world \<Rightarrow> string \<Rightarrow> usage option" where
  "cache_get w k =
     (case cache w k of
        None \<Rightarrow> None
      | Some (v, expiry) \<Rightarrow>
          (case expiry of
             None \<Rightarrow> Some v
           | Some t \<Rightarrow> if t \<le> clock w then None else Some v))"

definition cache_set :: "string \<Rightarrow> usage \<Rightarrow> nat option \<Rightarrow> world \<Rightarrow> world" where
  "cache_set k v timeout w =
     w\<lparr>cache := (cache w)(k \<mapsto> (v, map_option (\<lambda>t. clock w + t) timeout))\<rparr>"

definition record_call :: "call \<Rightarrow> world \<Rightarrow> world" where
  "record_call c w = w\<lparr>calls := calls w @ [c]\<rparr>"

section \<open>Project: usage\<close>

definition cache_key :: "string \<Rightarrow> datetime \<Rightarrow> datetime \<Rightarrow> string" where
  "cache_key tenant start endt =
     ''compute_usage.'' @ tenant @ ''.'' @ strftime_Y_b_d start @ ''-'' @ strftime_Y_b_d endt"

definition get_compute_usage ::
  "env \<Rightarrow> project \<Rightarrow> datetime option \<Rightarrow> datetime option \<Rightarrow> world \<Rightarrow> (exn + usage option) \<times> world" where
  "get_compute_usage e self start endt w =
     (let start = (case start of
                     None \<Rightarrow> (now w)\<lparr>day := 1, hour := 0, minute := 0, second := 0\<rparr>
                   | Some s \<Rightarrow> s);
          endt = (case endt of
                    None \<Rightarrow> (now w)\<lparr>hour := 0, minute := 0, second := 0\<rparr>
                  | Some t \<Rightarrow> t);
          key = cache_key (openstack_id self) start endt
      in if openstack_id self = [] then (Inr None, w)
         else (case cache_get w key of
                 Some result \<Rightarrow> (Inr (Some result), w)
               | None \<Rightarrow>
                   (let w1 = record_call (Openstack_get_compute_usage_for_project (openstack_id self) start endt) w
                    in case os_get_compute_usage_for_project e (length (calls w)) (openstack_id self) start endt of
                         Inl x \<Rightarrow> (Inl x, w1)
                       | Inr result \<Rightarrow>
                           (Inr (Some result), cache_set key result (REPORTING_CACHE_TIMEOUT e) w1))))"

text \<open>The inner function of \<^verbatim>\<open>usage_summary\<close>: the item when it is active, else \<^verbatim>\<open>None\<close>.\<close>

definition filter_active :: "item \<Rightarrow> exn + item option" where
  "filter_active it =
     (case getitem it ''state'' of
        Inl x \<Rightarrow> Inl x
      | Inr v \<Rightarrow> if v = PyStr ''active'' then Inr (Some it) else Inr None)"

text \<open>\<^verbatim>\<open>list(map(f, xs))\<close> for an \<open>f\<close> that may raise: the first exception ends it.\<close>

fun list_map :: "('a \<Rightarrow> exn + 'b) \<Rightarrow> 'a list \<Rightarrow> exn + 'b list" where
  "list_map f [] = Inr []"
| "list_map f (x # xs) =
     (case f x of
        Inl e \<Rightarrow> Inl e
      | Inr y \<Rightarrow> (case list_map f xs of Inl e \<Rightarrow> Inl e | Inr ys \<Rightarrow> Inr (y # ys)))"

text \<open>
  \<^verbatim>\<open>sum(s[k] for s in server_usages if s)\<close>, from the left, starting at 0: an entry
  that is false (\<^verbatim>\<open>None\<close>, or a dictionary without keys) is skipped, a missing key
  raises, and so does adding a string to a number.
\<close>

fun sum_key :: "string \<Rightarrow> int \<Rightarrow> item option list \<Rightarrow> exn + int" where
  "sum_key k acc [] = Inr acc"
| "sum_key k acc (None # ss) = sum_key k acc ss"
| "sum_key k acc (Some d # ss) =
     (if d = [] then sum_key k acc ss
      else (case getitem d k of
              Inl x \<Rightarrow> Inl x
            | Inr (PyInt n) \<Rightarrow> sum_key k (acc + n) ss
            | Inr (PyStr v) \<Rightarrow> Inl TypeError))"

record summary =
  total :: nat
  ram :: int
  vcpus :: int

text \<open>The part of \<^verbatim>\<open>usage_summary\<close> after the usage has been fetched.\<close>

definition summarise :: "usage option \<Rightarrow> exn + summary option" where
  "summarise fetched =
     (case fetched of
        None \<Rightarrow> Inr None
      | Some [] \<Rightarrow> Inr None
      | Some raw \<Rightarrow>
          (case list_map filter_active raw of
             Inl x \<Rightarrow> Inl x
           | Inr server_usages \<Rightarrow>
               if server_usages \<noteq> []
               then (case sum_key ''memory_mb'' 0 server_usages of
                       Inl x \<Rightarrow> Inl x
                     | Inr r \<Rightarrow>
                         (case sum_key ''vcpus'' 0 server_usages of
                            Inl x \<Rightarrow> Inl x
                          | Inr v \<Rightarrow>
                              Inr (Some \<lparr>total = length server_usages, ram = r, vcpus = v\<rparr>)))
               else Inr None))"

definition usage_summary ::
  "env \<Rightarrow> project \<Rightarrow> datetime option \<Rightarrow> datetime option \<Rightarrow> world \<Rightarrow> (exn + summary option) \<times> world" where
  "usage_summary e self start endt w =
     (case get_compute_usage e self start endt w of
        (Inl x, w1) \<Rightarrow> (Inl x, w1)
      | (Inr server_usages, w1) \<Rightarrow> (summarise server_usages, w1))"

section \<open>Project: persistence and provisioning\<close>

definition find_project :: "database \<Rightarrow> nat \<Rightarrow> project option" where
  "find_project d i = find (\<lambda>p. pk p = i) (projects d)"

text \<open>\<^verbatim>\<open>GardenerService.save_project\<close> and \<^verbatim>\<open>GardenerService.delete_project\<close>.\<close>

definition GardenerService_save_project :: "env \<Rightarrow> project \<Rightarrow> world \<Rightarrow> exn option \<times> world" where
  "GardenerService_save_project e p w =
     (gardener_save_project e (length (calls w)) p, record_call (Gardener_save_project (pk p)) w)"

definition GardenerService_delete_project :: "env \<Rightarrow> project \<Rightarrow> world \<Rightarrow> exn option \<times> world" where
  "GardenerService_delete_project e p w =
     (gardener_delete_project e (length (calls w)) p, record_call (Gardener_delete_project (pk p)) w)"

text \<open>
  The inherited \<^verbatim>\<open>models.Model.save\<close> of a project: the row with this primary key is
  replaced, or the row is added; \<^verbatim>\<open>modified_at\<close> is stamped on every save and
  \<^verbatim>\<open>created_at\<close> when the row is added; a second project of the same name violates
  \<^verbatim>\<open>unique=True\<close>.
\<close>

definition Model_save_project :: "project \<Rightarrow> world \<Rightarrow> exn + project \<times> world" where
  "Model_save_project self w =
     (let rows = projects (db w);
          present = list_ex (\<lambda>p. pk p = pk self) rows;
          self1 = self\<lparr>modified_at := clock w,
                       created_at := (if present then created_at self else clock w)\<rparr>
      in if list_ex (\<lambda>p. pk p \<noteq> pk self \<and> name p = name self) rows
         then Inl IntegrityError
         else Inr (self1,
                w\<lparr>db := (db w)\<lparr>projects :=
                     (if present then map (\<lambda>p. if pk p = pk self then self1 else p) rows
                      else rows @ [self1])\<rparr>\<rparr>))"

definition Project_save :: "env \<Rightarrow> project \<Rightarrow> bool \<Rightarrow> world \<Rightarrow> (exn + project) \<times> world" where
  "Project_save e self save_to_gardener w =
     (case Model_save_project self w of
        Inl x \<Rightarrow> (Inl x, w)
      | Inr (self1, w1) \<Rightarrow>
          if save_to_gardener
          then (case GardenerService_save_project e self1 w1 of
                  (Some x, w2) \<Rightarrow> (Inl x, w2)
                | (None, w2) \<Rightarrow> (Inr self1, w2))
          else (Inr self1, w1))"

text \<open>The message of the warning logged by \<^verbatim>\<open>create_openstack_project\<close>.\<close>

definition already_has_id :: "project \<Rightarrow> string" where
  "already_has_id self =
     ''Project '' @ [CHR 0x27] @ name self @ [CHR 0x27] @ '' already has an '' @
     ''OpenStack ID: '' @ openstack_id self @ ''. No new project will be created.''"

text \<open>
  \<^verbatim>\<open>create_openstack_project\<close> returns the tenant it created, or \<^verbatim>\<open>None\<close> when the
  project has one already; the second component is \<^verbatim>\<open>self\<close> after the call.
\<close>

definition create_openstack_project ::
  "env \<Rightarrow> project \<Rightarrow> world \<Rightarrow> (exn + tenant option) \<times> project \<times> world" where
  "create_openstack_project e self w =
     (if openstack_id self \<noteq> []
      then (Inr None, self, w\<lparr>warnings := warnings w @ [already_has_id self]\<rparr>)
      else (let w1 = record_call (Openstack_create_project (name self)) w
            in case os_create_project e (length (calls w)) (name self) of
                 Inl x \<Rightarrow> (Inl x, self, w1)
               | Inr os_project \<Rightarrow>
                   (let self1 = self\<lparr>openstack_id := tenant_id os_project\<rparr>
                    in case Project_save e self1 True w1 of
                         (Inl x, w2) \<Rightarrow> (Inl x, self1, w2)
                       | (Inr self2, w2) \<Rightarrow> (Inr (Some os_project), self2, w2))))"

text \<open>
  The property \<^verbatim>\<open>enabled_on_openstack\<close>. The result is a sum, so that a failure that
  were to leave the property would show as \<open>Inl\<close>.
\<close>

definition enabled_on_openstack :: "env \<Rightarrow> project \<Rightarrow> world \<Rightarrow> (exn + bool) \<times> world" where
  "enabled_on_openstack e self w =
     (let w1 = record_call (Openstack_get_project (openstack_id self)) w
      in case os_get_project e (length (calls w)) (openstack_id self) of
           Inl x \<Rightarrow> (Inr False, w1)
         | Inr t \<Rightarrow> (Inr (tenant_enabled t), w1))"

section \<open>ProjectMembership\<close>

text \<open>
  \<^verbatim>\<open>ProjectMembership.save\<close>: the inherited save writes the row (the foreign key must
  point to a project), then the parent project is pushed to the provisioning service.
\<close>

definition ProjectMembership_save ::
  "env \<Rightarrow> project_membership \<Rightarrow> world \<Rightarrow> (exn + project_membership) \<times> world" where
  "ProjectMembership_save e self w =
     (case find_project (db w) (project self) of
        None \<Rightarrow> (Inl IntegrityError, w)
      | Some p \<Rightarrow>
          (let rows = project_memberships (db w);
               w1 = w\<lparr>db := (db w)\<lparr>project_memberships :=
                      (if list_ex (\<lambda>m. membership_pk m = membership_pk self) rows
                       then map (\<lambda>m. if membership_pk m = membership_pk self then self else m) rows
                       else rows @ [self])\<rparr>\<rparr>
           in case GardenerService_save_project e p w1 of
                (Some x, w2) \<Rightarrow> (Inl x, w2)
              | (None, w2) \<Rightarrow> (Inr self, w2)))"

text \<open>The receiver of \<^verbatim>\<open>post_delete\<close> for memberships.\<close>

definition delete_project_membership ::
  "env \<Rightarrow> project_membership \<Rightarrow> world \<Rightarrow> exn option \<times> world" where
  "delete_project_membership e inst w =
     (case find_project (db w) (project inst) of
        None \<Rightarrow> (Some DoesNotExist, w)
      | Some p \<Rightarrow> GardenerService_delete_project e p w)"

text \<open>The receiver run for each instance of a list, in the order of the list, up to the first that raises.\<close>

fun receive_each :: "env \<Rightarrow> project_membership list \<Rightarrow> world \<Rightarrow> exn option \<times> world" where
  "receive_each e [] w = (None, w)"
| "receive_each e (m # ms) w =
     (case delete_project_membership e m w of
        (Some x, w1) \<Rightarrow> (Some x, w1)
      | (None, w1) \<Rightarrow> receive_each e ms w1)"

text \<open>
  Django's collector sorts the instances it deletes by primary key and reverses them
  before it sends \<^verbatim>\<open>post_delete\<close>: the receiver sees them by descending primary key,
  whatever the order of the rows in the table.
\<close>

definition send_post_delete :: "env \<Rightarrow> project_membership list \<Rightarrow> world \<Rightarrow> exn option \<times> world" where
  "send_post_delete e instances w = receive_each e (rev (sort_key membership_pk instances)) w"

text \<open>
  A database transaction around an operation that started in world \<open>w\<close>: when the
  operation raises, the database is as it was in \<open>w\<close>; what reached the collaborators
  stays done.
\<close>

definition atomic :: "world \<Rightarrow> (exn + 'a) \<times> world \<Rightarrow> (exn + 'a) \<times> world" where
  "atomic w r = (case r of (Inl x, w1) \<Rightarrow> (Inl x, w1\<lparr>db := db w\<rparr>) | (Inr v, w1) \<Rightarrow> (Inr v, w1))"

text \<open>
  Deleting the membership rows that satisfy a condition, after Django's collector: the
  rows leave the table, then \<^verbatim>\<open>post_delete\<close> is sent for each of them (by descending
  primary key, see \<open>send_post_delete\<close>), all in one transaction.
\<close>

definition queryset_delete ::
  "env \<Rightarrow> (project_membership \<Rightarrow> bool) \<Rightarrow> world \<Rightarrow> (exn + unit) \<times> world" where
  "queryset_delete e cond w =
     atomic w
       (let rows = project_memberships (db w);
            w1 = w\<lparr>db := (db w)\<lparr>project_memberships := filter (\<lambda>m. \<not> cond m) rows\<rparr>\<rparr>
        in case send_post_delete e (filter cond rows) w1 of
             (Some x, w2) \<Rightarrow> (Inl x, w2)
           | (None, w2) \<Rightarrow> (Inr (), w2))"

text \<open>\<^verbatim>\<open>membership.delete()\<close> on one instance.\<close>

definition ProjectMembership_delete ::
  "env \<Rightarrow> project_membership \<Rightarrow> world \<Rightarrow> (exn + unit) \<times> world" where
  "ProjectMembership_delete e self w =
     atomic w
       (let rows = project_memberships (db w);
            w1 = w\<lparr>db := (db w)\<lparr>project_memberships :=
                   filter (\<lambda>m. membership_pk m \<noteq> membership_pk self) rows\<rparr>\<rparr>
        in case delete_project_membership e self w1 of
             (Some x, w2) \<Rightarrow> (Inl x, w2)
           | (None, w2) \<Rightarrow> (Inr (), w2))"

section \<open>The admin ProjectSerializer\<close>

text \<open>
  Modelled from the spec: the nested membership serializer is defined outside this
  module; an incoming entry is \<^verbatim>\<open>{team, role}\<close>, as the admin representation of the
  specification gives it.
\<close>

record team_data =
  data_team :: nat
  data_role :: role

text \<open>
  The validated data of an update: the writable fields of the serializer, each present
  or not, and the membership list under its source name \<^verbatim>\<open>project_membership\<close>.
\<close>

record validated_data =
  data_name :: "string option"
  data_has_public_co2_reporting :: "bool option"
  data_gardener_enabled :: "bool option"
  data_project_membership :: "team_data list option"

text \<open>
  Creating a row: the database issues the next key of the sequence, and the insert fails
  when a row with that key is already there.
\<close>

definition create_membership ::
  "env \<Rightarrow> project \<Rightarrow> nat \<Rightarrow> role \<Rightarrow> world \<Rightarrow> (exn + project_membership) \<times> world" where
  "create_membership e inst t r w =
     (let k = Suc (membership_pk_seq w);
          w0 = w\<lparr>membership_pk_seq := k\<rparr>
      in if list_ex (\<lambda>m. membership_pk m = k) (project_memberships (db w))
         then (Inl IntegrityError, w0)
         else ProjectMembership_save e
                \<lparr>membership_pk = k, project = pk inst, team = t, role = r\<rparr> w0)"

text \<open>
  \<^verbatim>\<open>update_or_create(project=instance, team=t, defaults={role})\<close>: no row for the pair
  creates one, one row gets the role and is saved, several rows raise. Django runs it in
  a transaction.
\<close>

definition update_or_create ::
  "env \<Rightarrow> project \<Rightarrow> nat \<Rightarrow> role \<Rightarrow> world \<Rightarrow> (exn + project_membership) \<times> world" where
  "update_or_create e inst t r w =
     atomic w
       (case filter (\<lambda>m. project m = pk inst \<and> team m = t) (project_memberships (db w)) of
          [] \<Rightarrow> create_membership e inst t r w
        | [m] \<Rightarrow> ProjectMembership_save e (m\<lparr>role := r\<rparr>) w
        | _ \<Rightarrow> (Inl MultipleObjectsReturned, w))"

fun update_or_create_each ::
  "env \<Rightarrow> project \<Rightarrow> team_data list \<Rightarrow> world \<Rightarrow> exn option \<times> world" where
  "update_or_create_each e inst [] w = (None, w)"
| "update_or_create_each e inst (td # tds) w =
     (case update_or_create e inst (data_team td) (data_role td) w of
        (Inl x, w1) \<Rightarrow> (Some x, w1)
      | (Inr m, w1) \<Rightarrow> update_or_create_each e inst tds w1)"

text \<open>
  The inherited \<^verbatim>\<open>ModelSerializer.update\<close>: every field present in the data is set on
  the instance, and the instance is saved.
\<close>

definition ModelSerializer_update ::
  "env \<Rightarrow> project \<Rightarrow> validated_data \<Rightarrow> world \<Rightarrow> (exn + project) \<times> world" where
  "ModelSerializer_update e inst vd w =
     (let i1 = (case data_name vd of None \<Rightarrow> inst | Some v \<Rightarrow> inst\<lparr>name := v\<rparr>);
          i2 = (case data_has_public_co2_reporting vd of
                  None \<Rightarrow> i1 | Some v \<Rightarrow> i1\<lparr>has_public_co2_reporting := v\<rparr>);
          i3 = (case data_gardener_enabled vd of
                  None \<Rightarrow> i2 | Some v \<Rightarrow> i2\<lparr>gardener_enabled := v\<rparr>)
      in Project_save e i3 True w)"

definition ProjectSerializer_update ::
  "env \<Rightarrow> project \<Rightarrow> validated_data \<Rightarrow> world \<Rightarrow> (exn + project) \<times> world" where
  "ProjectSerializer_update e inst vd w =
     (let teams_data = (case data_project_membership vd of None \<Rightarrow> [] | Some tds \<Rightarrow> tds)
      in case ModelSerializer_update e inst vd w of
           (Inl x, w1) \<Rightarrow> (Inl x, w1)
         | (Inr inst1, w1) \<Rightarrow>
             (case queryset_delete e
                     (\<lambda>m. \<not> (project m = pk inst1 \<and> team m \<in> set (map data_team teams_data))) w1 of
                (Inl x, w2) \<Rightarrow> (Inl x, w2)
              | (Inr u, w2) \<Rightarrow>
                  (case update_or_create_each e inst1 teams_data w2 of
                     (Some x, w3) \<Rightarrow> (Inl x, w3)
                   | (None, w3) \<Rightarrow> (Inr inst1, w3))))"

section \<open>Concrete inputs\<close>

text \<open>Small databases, users, collaborators and worlds on which the theorems below are run.\<close>

definition a_project :: "nat \<Rightarrow> string \<Rightarrow> nat option \<Rightarrow> string \<Rightarrow> project" where
  "a_project i n org tenant =
     \<lparr>pk = i, organization = org, name = n, description = [], created_at = 0,
      modified_at = 0, deleted_at = None, openstack_id = tenant, billing_contact = None,
      enabled = True, has_public_co2_reporting = False, keycloak_id = None,
      gardener_id = None, gardener_enabled = False\<rparr>"

definition a_user :: "nat \<Rightarrow> bool \<Rightarrow> nat list \<Rightarrow> nat list \<Rightarrow> string list \<Rightarrow> user" where
  "a_user i adm orgs ts ps =
     \<lparr>user_pk = i, is_admin = adm, organizations = orgs, teams = ts, perms = ps\<rparr>"

definition a_membership :: "nat \<Rightarrow> nat \<Rightarrow> nat \<Rightarrow> role \<Rightarrow> project_membership" where
  "a_membership i p t r = \<lparr>membership_pk = i, project = p, team = t, role = r\<rparr>"

text \<open>Two projects of two organizations; team 10 works on both.\<close>

definition two_projects :: database where
  "two_projects =
     \<lparr>projects = [a_project 1 ''alpha'' (Some 1) ''t1'', a_project 2 ''beta'' (Some 2) ''t2''],
      project_memberships = [a_membership 1 1 10 WRITE, a_membership 2 2 10 ADMIN],
      organization_memberships = [(1, 7)]\<rparr>"

text \<open>Collaborators that never fail; the usage source answers with the given list.\<close>

definition steady :: "usage \<Rightarrow> env" where
  "steady u =
     \<lparr>REPORTING_CACHE_TIMEOUT = Some 3600,
      os_get_compute_usage_for_project = (\<lambda>n tenant s t. Inr u),
      os_create_project = (\<lambda>n nm. Inr \<lparr>tenant_id = ''os-'' @ nm, tenant_enabled = True\<rparr>),
      os_get_project = (\<lambda>n i. Inr \<lparr>tenant_id = i, tenant_enabled = True\<rparr>),
      gardener_save_project = (\<lambda>n p. None),
      gardener_delete_project = (\<lambda>n p. None)\<rparr>"

text \<open>An OpenStack client that is down.\<close>

definition unreachable :: env where
  "unreachable = (steady [])\<lparr>os_get_project := (\<lambda>n i. Inl (ServiceError ''ConnectFailure''))\<rparr>"

definition afternoon :: datetime where
  "afternoon = \<lparr>year = 2024, month = 3, day = 15, hour = 13, minute = 45, second = 30,
                microsecond = 123456\<rparr>"

text \<open>
  A world with an empty cache and empty logs, at 13:45:30.123456 on 15 March 2024, whose
  sequence stands at the largest membership key of the table.
\<close>

definition fresh_world :: "database \<Rightarrow> world" where
  "fresh_world d =
     \<lparr>db = d, cache = Map.empty, calls = [], warnings = [], clock = 1000, now = afternoon,
      membership_pk_seq = fold max (map membership_pk (project_memberships d)) 0\<rparr>"

definition active_small :: item where
  "active_small = [(''state'', PyStr ''active''), (''memory_mb'', PyInt 512), (''vcpus'', PyInt 2)]"

definition shutoff_large :: item where
  "shutoff_large = [(''state'', PyStr ''shutoff''), (''memory_mb'', PyInt 1024), (''vcpus'', PyInt 4)]"

definition march_first :: datetime where
  "march_first = \<lparr>year = 2024, month = 3, day = 1, hour = 0, minute = 0, second = 0,
                  microsecond = 0\<rparr>"

definition march_tenth :: datetime where
  "march_tenth = \<lparr>year = 2024, month = 3, day = 10, hour = 0, minute = 0, second = 0,
                  microsecond = 0\<rparr>"

definition nine_o_clock :: datetime where
  "nine_o_clock = \<lparr>year = 2024, month = 3, day = 1, hour = 9, minute = 0, second = 0,
                  microsecond = 0\<rparr>"

definition team_11_read :: validated_data where
  "team_11_read =
     \<lparr>data_name = None, data_has_public_co2_reporting = None, data_gardener_enabled = None,
      data_project_membership = Some [\<lparr>data_team = 11, data_role = READ\<rparr>]\<rparr>"

section \<open>Vocabulary of the statements\<close>

text \<open>Two datetimes on the same calendar day.\<close>

definition same_day :: "datetime \<Rightarrow> datetime \<Rightarrow> bool" where
  "same_day a b = (year a = year b \<and> month a = month b \<and> day a = day b)"

text \<open>
  The values a \<^verbatim>\<open>datetime\<close> object can hold: the record above has more values than
  the class, which checks its fields when it is built.
\<close>

definition valid_datetime :: "datetime \<Rightarrow> bool" where
  "valid_datetime d =
     (1 \<le> year d \<and> year d \<le> 9999 \<and> 1 \<le> month d \<and> month d \<le> 12 \<and>
      1 \<le> day d \<and> day d \<le> 31 \<and> hour d < 24 \<and> minute d < 60 \<and> second d < 60 \<and>
      microsecond d < 1000000)"

text \<open>The names \<^verbatim>\<open>%b\<close> prints, as a list.\<close>

definition month_names :: "string list" where
  "month_names = [''Jan'', ''Feb'', ''Mar'', ''Apr'', ''May'', ''Jun'',
            ''Jul'', ''Aug'', ''Sep'', ''Oct'', ''Nov'', ''Dec'']"

text \<open>
  The window a call works with: the arguments when they are supplied, else the defaults
  \<^verbatim>\<open>get_compute_usage\<close> builds from the clock.
\<close>

definition window_start :: "world \<Rightarrow> datetime option \<Rightarrow> datetime" where
  "window_start w a =
     (case a of None \<Rightarrow> (now w)\<lparr>day := 1, hour := 0, minute := 0, second := 0\<rparr> | Some s \<Rightarrow> s)"

definition window_end :: "world \<Rightarrow> datetime option \<Rightarrow> datetime" where
  "window_end w b =
     (case b of None \<Rightarrow> (now w)\<lparr>hour := 0, minute := 0, second := 0\<rparr> | Some t \<Rightarrow> t)"

text \<open>An item whose state is \<^verbatim>\<open>"active"\<close>, and the number an item holds under a key.\<close>

definition active_item :: "item \<Rightarrow> bool" where
  "active_item it = (map_of it ''state'' = Some (PyStr ''active''))"

definition int_field :: "string \<Rightarrow> item \<Rightarrow> int" where
  "int_field k it = (case map_of it k of Some (PyInt n) \<Rightarrow> n | _ \<Rightarrow> 0)"

section \<open>Visibility of projects\<close>

lemma set_teams_in:
  "set (teams_in d ts ps) =
     {p \<in> set ps. \<exists>m \<in> set (project_memberships d). project m = pk p \<and> team m \<in> set ts}"
  by (auto simp: teams_in_def)

lemma distinct_for_user: "distinct (for_user d u)"
  by (simp add: for_user_def Let_def)

lemma distinct_for_user_is_owner_of_organization:
  "distinct (for_user_is_owner_of_organization d u)"
  by (simp add: for_user_is_owner_of_organization_def)

lemma set_for_user_is_owner_of_organization:
  "P \<in> set (for_user_is_owner_of_organization d u) \<longleftrightarrow>
     P \<in> set (projects d) \<and>
     (\<exists>org. organization P = Some org \<and> (org, user_pk u) \<in> set (organization_memberships d))"
  by (force simp: for_user_is_owner_of_organization_def image_iff)

text \<open>
  Claim C1, as the code has it: a project is in \<^verbatim>\<open>for_user(U)\<close> exactly when its
  organization is among the organizations of \<open>U\<close> and, besides, \<open>U\<close> holds the
  permission \<^verbatim>\<open>can_manage_all_organization_projects\<close> or a team of the project is among
  the teams of \<open>U\<close>. The permission lifts the team condition, not the organization
  condition.
\<close>

theorem for_user_visible:
  "P \<in> set (for_user d u) \<longleftrightarrow>
     P \<in> set (projects d) \<and>
     (\<exists>org. organization P = Some org \<and> org \<in> set (organizations u)) \<and>
     (has_perm u ''core.can_manage_all_organization_projects'' \<or>
      (\<exists>m \<in> set (project_memberships d). project m = pk P \<and> team m \<in> set (teams u)))"
  by (auto simp: for_user_def set_teams_in organization_in_def Let_def split: option.splits)

text \<open>
  A member of organization 1 and team 10, without the permission, sees project alpha
  (organization 1, team 10) and not project beta (organization 2, team 10).
\<close>

theorem for_user_visible_witness:
  "a_project 1 ''alpha'' (Some 1) ''t1'' \<in> set (for_user two_projects (a_user 8 False [1] [10] [])) \<and>
   a_project 2 ''beta'' (Some 2) ''t2'' \<notin> set (for_user two_projects (a_user 8 False [1] [10] []))"
  using for_user_visible [of "a_project 1 ''alpha'' (Some 1) ''t1''" two_projects "a_user 8 False [1] [10] []"]
    for_user_visible [of "a_project 2 ''beta'' (Some 2) ''t2''" two_projects "a_user 8 False [1] [10] []"]
  by (simp add: has_perm_def a_user_def two_projects_def a_project_def a_membership_def)

text \<open>
  Claim C1 as stated fails: a user who holds the permission and belongs to no
  organization does not see project alpha, which is in the database.
\<close>

theorem for_user_permission_not_all_projects:
  "has_perm (a_user 7 False [] [] [''core.can_manage_all_organization_projects''])
      ''core.can_manage_all_organization_projects'' \<and>
   a_project 1 ''alpha'' (Some 1) ''t1'' \<in> set (projects two_projects) \<and>
   a_project 1 ''alpha'' (Some 1) ''t1'' \<notin>
      set (for_user two_projects (a_user 7 False [] [] [''core.can_manage_all_organization_projects'']))"
  by (simp add: has_perm_def a_user_def two_projects_def for_user_def organization_in_def
        a_project_def)

text \<open>
  Claim C10: on the public endpoint an admin user gets all projects, whatever the
  organization memberships are; any other user gets exactly
  \<^verbatim>\<open>for_user_is_owner_of_organization(user)\<close>.
\<close>

theorem get_queryset_admin_override:
  "(is_admin u \<longrightarrow> get_queryset d u = projects d) \<and>
   (\<not> is_admin u \<longrightarrow> get_queryset d u = for_user_is_owner_of_organization d u)"
  by (simp add: get_queryset_def)

text \<open>
  An admin who owns no organization gets both projects, where the owner scoping would
  give none; user 7, owner of organization 1 and not admin, gets project alpha only.
\<close>

theorem get_queryset_admin_override_witness:
  "is_admin (a_user 9 True [] [] []) \<and>
   get_queryset two_projects (a_user 9 True [] [] []) = projects two_projects \<and>
   for_user_is_owner_of_organization two_projects (a_user 9 True [] [] []) = [] \<and>
   \<not> is_admin (a_user 7 False [] [] []) \<and>
   get_queryset two_projects (a_user 7 False [] [] []) = [a_project 1 ''alpha'' (Some 1) ''t1'']"
  using get_queryset_admin_override [of "a_user 9 True [] [] []" two_projects]
    get_queryset_admin_override [of "a_user 7 False [] [] []" two_projects]
  by (simp add: a_user_def two_projects_def for_user_is_owner_of_organization_def a_project_def)

section \<open>Usage: cache and default window\<close>

lemma cache_key_same_day:
  "same_day s s' \<Longrightarrow> same_day t t' \<Longrightarrow> cache_key tenant s' t' = cache_key tenant s t"
  by (simp add: cache_key_def strftime_Y_b_d_def same_day_def)

lemma get_compute_usage_not_provisioned:
  "openstack_id self = [] \<Longrightarrow> get_compute_usage e self start endt w = (Inr None, w)"
  by (simp add: get_compute_usage_def Let_def)

lemma get_compute_usage_miss:
  assumes "openstack_id self \<noteq> []"
    and "cache_get w (cache_key (openstack_id self) s t) = None"
    and "os_get_compute_usage_for_project e (length (calls w)) (openstack_id self) s t = Inr result"
  shows "get_compute_usage e self (Some s) (Some t) w =
           (Inr (Some result),
            cache_set (cache_key (openstack_id self) s t) result (REPORTING_CACHE_TIMEOUT e)
              (record_call (Openstack_get_compute_usage_for_project (openstack_id self) s t) w))"
  using assms by (simp add: get_compute_usage_def Let_def)

lemma get_compute_usage_hit:
  assumes "openstack_id self \<noteq> []"
    and "cache_get w (cache_key (openstack_id self) s t) = Some result"
  shows "get_compute_usage e self (Some s) (Some t) w = (Inr (Some result), w)"
  using assms by (simp add: get_compute_usage_def Let_def)

lemma cache_get_after_set:
  assumes "case timeout of None \<Rightarrow> True | Some ttl \<Rightarrow> later < clock w + ttl"
  shows "cache_get ((cache_set k v timeout w)\<lparr>clock := later, now := n\<rparr>) k = Some v"
  using assms by (simp add: cache_get_def cache_set_def split: option.splits)

subsection \<open>The key separates tenants and days\<close>

lemma digit_char_digit: "digit_char a \<in> set ''0123456789''"
  unfolding digit_char_def by (rule nth_mem) simp

lemma digit_char_inj: "digit_char a = digit_char b \<Longrightarrow> a mod 10 = b mod 10"
proof -
  assume h: "digit_char a = digit_char b"
  have d: "distinct ''0123456789''" by simp
  have "a mod 10 < length ''0123456789''" "b mod 10 < length ''0123456789''" by simp_all
  with d h show ?thesis
    unfolding digit_char_def by (simp only: nth_eq_iff_index_eq)
qed

lemma decimal_digits: "set (decimal n) \<subseteq> set ''0123456789''"
proof (induction n rule: decimal.induct)
  case (1 n)
  show ?case
  proof (cases "n < 10")
    case True
    then have "decimal n = [digit_char n]" by (simp add: decimal.simps)
    with digit_char_digit [of n] show ?thesis by simp
  next
    case False
    then have "decimal n = decimal (n div 10) @ [digit_char n]" by (simp add: decimal.simps)
    with 1 False digit_char_digit [of n] show ?thesis by simp
  qed
qed

lemma decimal_nonempty: "decimal n \<noteq> []"
  by (subst decimal.simps) simp

lemma decimal_inj: "decimal n = decimal m \<Longrightarrow> n = m"
proof (induction n arbitrary: m rule: decimal.induct)
  case (1 n)
  have dn: "decimal n = (if n < 10 then [digit_char n] else decimal (n div 10) @ [digit_char n])"
    by (rule decimal.simps)
  have dm: "decimal m = (if m < 10 then [digit_char m] else decimal (m div 10) @ [digit_char m])"
    by (rule decimal.simps)
  show ?case
  proof (cases "n < 10")
    case n: True
    show ?thesis
    proof (cases "m < 10")
      case True
      with n dn dm "1.prems" have "digit_char n = digit_char m" by simp
      then have "n mod 10 = m mod 10" by (rule digit_char_inj)
      with n True show ?thesis by simp
    next
      case False
      with n dn dm "1.prems" have "[digit_char n] = decimal (m div 10) @ [digit_char m]" by simp
      then have "decimal (m div 10) = []" by simp
      with decimal_nonempty show ?thesis by blast
    qed
  next
    case n: False
    show ?thesis
    proof (cases "m < 10")
      case True
      with n dn dm "1.prems" have "decimal (n div 10) @ [digit_char n] = [digit_char m]" by simp
      then have "decimal (n div 10) = []" by simp
      with decimal_nonempty show ?thesis by blast
    next
      case False
      with n dn dm "1.prems"
      have "decimal (n div 10) @ [digit_char n] = decimal (m div 10) @ [digit_char m]" by simp
      then have a: "decimal (n div 10) = decimal (m div 10)" and b: "digit_char n = digit_char m"
        by simp_all
      from "1.IH" [OF n a] have "n div 10 = m div 10" .
      moreover from b have "n mod 10 = m mod 10" by (rule digit_char_inj)
      ultimately show ?thesis by (metis div_mult_mod_eq)
    qed
  qed
qed

lemma month_abbr_names:
  "1 \<le> m \<Longrightarrow> m \<le> 12 \<Longrightarrow> month_abbr m = month_names ! (m - 1)"
  by (simp add: month_abbr_def month_names_def)

lemma month_abbr_inj:
  assumes "1 \<le> m" "m \<le> 12" "1 \<le> k" "k \<le> 12" "month_abbr m = month_abbr k"
  shows "m = k"
proof -
  have d: "distinct month_names" by (simp add: month_names_def)
  have l: "m - 1 < length month_names" "k - 1 < length month_names"
    using assms by (simp_all add: month_names_def)
  from assms have "month_names ! (m - 1) = month_names ! (k - 1)"
    by (simp add: month_abbr_names)
  with d l have "m - 1 = k - 1" by (simp only: nth_eq_iff_index_eq)
  with assms show ?thesis by simp
qed

lemma month_abbr_plain:
  assumes "1 \<le> m" "m \<le> 12"
  shows "CHR ''-'' \<notin> set (month_abbr m)" and "CHR ''.'' \<notin> set (month_abbr m)"
proof -
  have a: "\<forall>x \<in> set month_names. CHR ''-'' \<notin> set x \<and> CHR ''.'' \<notin> set x"
    by (simp add: month_names_def)
  from assms have "m - 1 < length month_names" by (simp add: month_names_def)
  then have "month_names ! (m - 1) \<in> set month_names" by (rule nth_mem)
  with assms have "month_abbr m \<in> set month_names" by (simp only: month_abbr_names)
  with a show "CHR ''-'' \<notin> set (month_abbr m)" and "CHR ''.'' \<notin> set (month_abbr m)" by blast+
qed

lemma digit_plain:
  "digit_char a \<noteq> CHR ''-''" "digit_char a \<noteq> CHR ''.''"
  "CHR ''-'' \<noteq> digit_char a" "CHR ''.'' \<noteq> digit_char a"
  using digit_char_digit [of a] by auto

lemma decimal_plain: "CHR ''-'' \<notin> set (decimal n)" "CHR ''.'' \<notin> set (decimal n)"
  using decimal_digits [of n] by auto

lemma two_digits_inj:
  assumes "a < 100" "b < 100"
    and "digit_char (a div 10) = digit_char (b div 10)" "digit_char a = digit_char b"
  shows "a = (b::nat)"
proof -
  from assms(3) have "(a div 10) mod 10 = (b div 10) mod 10" by (rule digit_char_inj)
  with assms(1,2) have "a div 10 = b div 10" by simp
  moreover from assms(4) have "a mod 10 = b mod 10" by (rule digit_char_inj)
  ultimately show ?thesis by (metis div_mult_mod_eq)
qed

lemma strftime_plain:
  assumes "valid_datetime d"
  shows "CHR ''.'' \<notin> set (strftime_Y_b_d d)"
proof -
  from assms have "1 \<le> month d" "month d \<le> 12" by (simp_all add: valid_datetime_def)
  then have "CHR ''.'' \<notin> set (month_abbr (month d))" by (rule month_abbr_plain)
  then show ?thesis
    by (simp add: strftime_Y_b_d_def decimal_plain digit_plain)
qed

lemma left_split:
  "c \<notin> set xs \<Longrightarrow> c \<notin> set xs' \<Longrightarrow> xs @ c # ys = xs' @ c # ys' \<Longrightarrow> xs = xs' \<and> ys = ys'"
proof (induction xs arbitrary: xs')
  case Nil
  then show ?case by (cases xs') auto
next
  case (Cons x xs)
  then show ?case by (cases xs') auto
qed

lemma right_split:
  assumes "c \<notin> set ys" "c \<notin> set ys'" "xs @ c # ys = xs' @ c # ys'"
  shows "xs = xs' \<and> ys = ys'"
proof -
  from assms(3) have "rev (xs @ c # ys) = rev (xs' @ c # ys')" by simp
  then have "rev ys @ c # rev xs = rev ys' @ c # rev xs'" by simp
  moreover have "c \<notin> set (rev ys)" "c \<notin> set (rev ys')" using assms by simp_all
  ultimately have "rev ys = rev ys' \<and> rev xs = rev xs'"
    by (blast dest: left_split)
  then show ?thesis by simp
qed

lemma strftime_append_inj:
  assumes va: "valid_datetime a" and vb: "valid_datetime b"
    and eq: "strftime_Y_b_d a @ r = strftime_Y_b_d b @ r'"
  shows "same_day a b \<and> r = r'"
proof -
  let ?rest = "\<lambda>d r. month_abbr (month d) @ CHR ''-'' # digit_char (day d div 10) # digit_char (day d) # r"
  from eq have "decimal (year a) @ CHR ''-'' # ?rest a r = decimal (year b) @ CHR ''-'' # ?rest b r'"
    by (simp add: strftime_Y_b_d_def)
  with decimal_plain(1) decimal_plain(1)
  have "decimal (year a) = decimal (year b) \<and> ?rest a r = ?rest b r'"
    by (rule left_split)
  then have y: "decimal (year a) = decimal (year b)" and r1: "?rest a r = ?rest b r'"
    by simp_all
  from va vb have ma: "1 \<le> month a" "month a \<le> 12" and mb: "1 \<le> month b" "month b \<le> 12"
    and da: "day a < 100" and db: "day b < 100"
    by (simp_all add: valid_datetime_def)
  have m: "CHR ''-'' \<notin> set (month_abbr (month a))" "CHR ''-'' \<notin> set (month_abbr (month b))"
    using ma mb by (simp_all only: month_abbr_plain not_False_eq_True)
  from m r1 have "month_abbr (month a) = month_abbr (month b) \<and>
      digit_char (day a div 10) # digit_char (day a) # r =
      digit_char (day b div 10) # digit_char (day b) # r'"
    by (rule left_split)
  then have mm: "month_abbr (month a) = month_abbr (month b)"
    and dd: "digit_char (day a div 10) # digit_char (day a) # r =
             digit_char (day b div 10) # digit_char (day b) # r'"
    by simp_all
  from y have "year a = year b" by (rule decimal_inj)
  moreover from ma mb mm have "month a = month b" by (rule month_abbr_inj)
  moreover from dd have "digit_char (day a div 10) = digit_char (day b div 10)"
    "digit_char (day a) = digit_char (day b)" by simp_all
  with da db have "day a = day b" by (rule two_digits_inj)
  moreover from dd have "r = r'" by simp
  ultimately show ?thesis by (simp add: same_day_def)
qed

lemma cache_key_inject:
  assumes v: "valid_datetime s" "valid_datetime t" "valid_datetime s'" "valid_datetime t'"
  shows "cache_key T' s' t' = cache_key T s t \<longleftrightarrow> T' = T \<and> same_day s s' \<and> same_day t t'"
proof
  assume "T' = T \<and> same_day s s' \<and> same_day t t'"
  then show "cache_key T' s' t' = cache_key T s t"
    by (simp add: cache_key_same_day)
next
  assume "cache_key T' s' t' = cache_key T s t"
  then have e: "T' @ CHR ''.'' # (strftime_Y_b_d s' @ CHR ''-'' # strftime_Y_b_d t') =
             T @ CHR ''.'' # (strftime_Y_b_d s @ CHR ''-'' # strftime_Y_b_d t)"
    by (simp add: cache_key_def)
  have "CHR ''.'' \<notin> set (strftime_Y_b_d s' @ CHR ''-'' # strftime_Y_b_d t')"
    "CHR ''.'' \<notin> set (strftime_Y_b_d s @ CHR ''-'' # strftime_Y_b_d t)"
    using v by (simp_all add: strftime_plain)
  from right_split [OF this e] have T: "T' = T"
    and r: "strftime_Y_b_d s' @ CHR ''-'' # strftime_Y_b_d t' = strftime_Y_b_d s @ CHR ''-'' # strftime_Y_b_d t"
    by simp_all
  from strftime_append_inj [OF v(1) v(3) r [symmetric]]
  have s: "same_day s s'" and r2: "strftime_Y_b_d t @ [] = strftime_Y_b_d t' @ []" by simp_all
  from strftime_append_inj [OF v(2) v(4) r2] have "same_day t t'" by simp
  with T s show "T' = T \<and> same_day s s' \<and> same_day t t'" by simp
qed


subsection \<open>One fetch for two calls\<close>

lemma get_compute_usage_window:
  "get_compute_usage e self a b w =
     get_compute_usage e self (Some (window_start w a)) (Some (window_end w b)) w"
  by (simp add: get_compute_usage_def window_start_def window_end_def)

text \<open>
  Claim C6: for a provisioned project, a first call that misses the cache and fetches
  \<open>result\<close> makes one call to the usage source and stores \<open>result\<close> under the key
  \<^verbatim>\<open>compute_usage.<tenant>.<start day>-<end day>\<close>, each day printed as year, month name
  and day of the month; a second call whose window falls on the same two days, at any
  time before the entry expires, returns \<open>result\<close> from the cache and leaves the world
  as it found it, so the usage source has been called once in all. The windows are the
  arguments or, when they are not supplied, the defaults. The entry is stored under this
  key only: the key of another tenant, or of a window on another start or end day, holds
  what it held before.
\<close>

theorem get_compute_usage_cached:
  assumes prov: "openstack_id self \<noteq> []"
    and win: "s = window_start w a" "t = window_end w b"
    and miss: "cache_get w (cache_key (openstack_id self) s t) = None"
    and fetch: "os_get_compute_usage_for_project e (length (calls w)) (openstack_id self) s t = Inr result"
    and first: "get_compute_usage e self a b w = (r1, w1)"
    and ttl: "case REPORTING_CACHE_TIMEOUT e of None \<Rightarrow> True | Some ttl \<Rightarrow> later < clock w + ttl"
    and second: "w2 = w1\<lparr>clock := later, now := n\<rparr>"
    and days: "same_day s (window_start w2 a')" "same_day t (window_end w2 b')"
  shows "r1 = Inr (Some result) \<and>
         calls w1 = calls w @ [Openstack_get_compute_usage_for_project (openstack_id self) s t] \<and>
         cache w1 =
           (cache w)(''compute_usage.'' @ openstack_id self @ ''.'' @ strftime_Y_b_d s @ ''-'' @
                     strftime_Y_b_d t \<mapsto>
                       (result, map_option (\<lambda>ttl. clock w + ttl) (REPORTING_CACHE_TIMEOUT e))) \<and>
         get_compute_usage e self a' b' w2 = (Inr (Some result), w2) \<and>
         (\<forall>T' s' t'. valid_datetime s \<and> valid_datetime t \<and> valid_datetime s' \<and> valid_datetime t' \<and>
              \<not> (T' = openstack_id self \<and> same_day s s' \<and> same_day t t') \<longrightarrow>
              cache w1 (cache_key T' s' t') = cache w (cache_key T' s' t'))"
proof -
  let ?k = "cache_key (openstack_id self) s t"
  let ?w1 = "cache_set ?k result (REPORTING_CACHE_TIMEOUT e)
               (record_call (Openstack_get_compute_usage_for_project (openstack_id self) s t) w)"
  let ?s' = "window_start w2 a'" and ?t' = "window_end w2 b'"
  from first have "get_compute_usage e self (Some s) (Some t) w = (r1, w1)"
    unfolding win by (simp only: get_compute_usage_window [symmetric])
  with get_compute_usage_miss [OF prov miss fetch]
  have r1: "r1 = Inr (Some result)" and w1: "w1 = ?w1" by simp_all
  have c: "calls w1 = calls w @ [Openstack_get_compute_usage_for_project (openstack_id self) s t]"
    by (simp add: w1 cache_set_def record_call_def)
  have st: "cache w1 = (cache w)(?k \<mapsto> (result, map_option (\<lambda>ttl. clock w + ttl) (REPORTING_CACHE_TIMEOUT e)))"
    by (simp add: w1 cache_set_def record_call_def)
  have k: "?k = ''compute_usage.'' @ openstack_id self @ ''.'' @ strftime_Y_b_d s @ ''-'' @ strftime_Y_b_d t"
    by (simp add: cache_key_def)
  have "case REPORTING_CACHE_TIMEOUT e of None \<Rightarrow> True
        | Some ttl \<Rightarrow> later < clock (record_call (Openstack_get_compute_usage_for_project (openstack_id self) s t) w) + ttl"
    using ttl by (simp add: record_call_def split: option.splits)
  then have "cache_get w2 ?k = Some result"
    unfolding w1 second by (rule cache_get_after_set)
  then have "cache_get w2 (cache_key (openstack_id self) ?s' ?t') = Some result"
    by (simp add: cache_key_same_day [OF days])
  then have "get_compute_usage e self (Some ?s') (Some ?t') w2 = (Inr (Some result), w2)"
    by (rule get_compute_usage_hit [OF prov])
  then have hit: "get_compute_usage e self a' b' w2 = (Inr (Some result), w2)"
    by (simp only: get_compute_usage_window [symmetric])
  have sep: "cache w1 (cache_key T' s' t') = cache w (cache_key T' s' t')"
    if "valid_datetime s" "valid_datetime t" "valid_datetime s'" "valid_datetime t'"
      "\<not> (T' = openstack_id self \<and> same_day s s' \<and> same_day t t')" for T' s' t'
  proof -
    from that have "cache_key T' s' t' \<noteq> ?k"
      by (simp only: cache_key_inject not_False_eq_True)
    then show ?thesis by (simp add: st)
  qed
  from r1 c st hit sep show ?thesis unfolding k by blast
qed

text \<open>
  Project alpha (tenant \<open>t1\<close>), window 1 to 10 March, empty cache at time 1000, timeout
  3600: the list is stored under \<^verbatim>\<open>compute_usage.t1.2024-Mar-01-2024-Mar-10\<close> until
  time 4600, nothing is stored for tenant \<open>t2\<close>, a second call at time 2000 for the
  window starting at 9:00 on 1 March returns the stored list, and the usage source has
  been called once.
\<close>

theorem get_compute_usage_cached_witness:
  "fst (get_compute_usage (steady [active_small]) (a_project 1 ''alpha'' (Some 1) ''t1'')
          (Some march_first) (Some march_tenth) (fresh_world two_projects)) =
     Inr (Some [active_small]) \<and>
   cache (snd (get_compute_usage (steady [active_small]) (a_project 1 ''alpha'' (Some 1) ''t1'')
          (Some march_first) (Some march_tenth) (fresh_world two_projects))) =
     [''compute_usage.t1.2024-Mar-01-2024-Mar-10'' \<mapsto> ([active_small], Some 4600)] \<and>
   cache (snd (get_compute_usage (steady [active_small]) (a_project 1 ''alpha'' (Some 1) ''t1'')
          (Some march_first) (Some march_tenth) (fresh_world two_projects)))
     (cache_key ''t2'' march_first march_tenth) = None \<and>
   get_compute_usage (steady [active_small]) (a_project 1 ''alpha'' (Some 1) ''t1'')
          (Some nine_o_clock) (Some march_tenth)
          ((snd (get_compute_usage (steady [active_small]) (a_project 1 ''alpha'' (Some 1) ''t1'')
                   (Some march_first) (Some march_tenth) (fresh_world two_projects)))
             \<lparr>clock := 2000, now := afternoon\<rparr>) =
     (Inr (Some [active_small]),
      (snd (get_compute_usage (steady [active_small]) (a_project 1 ''alpha'' (Some 1) ''t1'')
                   (Some march_first) (Some march_tenth) (fresh_world two_projects)))
             \<lparr>clock := 2000, now := afternoon\<rparr>) \<and>
   calls (snd (get_compute_usage (steady [active_small]) (a_project 1 ''alpha'' (Some 1) ''t1'')
          (Some march_first) (Some march_tenth) (fresh_world two_projects))) =
     [Openstack_get_compute_usage_for_project ''t1'' march_first march_tenth]"
proof -
  let ?e = "steady [active_small]"
  let ?p = "a_project 1 ''alpha'' (Some 1) ''t1''"
  let ?w = "fresh_world two_projects"
  let ?first = "get_compute_usage ?e ?p (Some march_first) (Some march_tenth) ?w"
  let ?w2 = "(snd ?first)\<lparr>clock := 2000, now := afternoon\<rparr>"
  have prov: "openstack_id ?p \<noteq> []" by (simp add: a_project_def)
  have win: "march_first = window_start ?w (Some march_first)"
    "march_tenth = window_end ?w (Some march_tenth)"
    by (simp_all add: window_start_def window_end_def)
  have miss: "cache_get ?w (cache_key (openstack_id ?p) march_first march_tenth) = None"
    by (simp add: cache_get_def fresh_world_def)
  have fetch: "os_get_compute_usage_for_project ?e (length (calls ?w)) (openstack_id ?p)
                 march_first march_tenth = Inr [active_small]"
    by (simp add: steady_def)
  have first: "?first = (fst ?first, snd ?first)" by simp
  have ttl: "case REPORTING_CACHE_TIMEOUT ?e of None \<Rightarrow> True | Some ttl \<Rightarrow> 2000 < clock ?w + ttl"
    by (simp add: steady_def fresh_world_def)
  have second: "?w2 = (snd ?first)\<lparr>clock := 2000, now := afternoon\<rparr>" by simp
  have days: "same_day march_first (window_start ?w2 (Some nine_o_clock))"
    "same_day march_tenth (window_end ?w2 (Some march_tenth))"
    by (simp_all add: same_day_def window_start_def window_end_def march_first_def nine_o_clock_def)
  have v: "valid_datetime march_first \<and> valid_datetime march_tenth \<and>
           valid_datetime march_first \<and> valid_datetime march_tenth \<and>
           \<not> (''t2'' = openstack_id ?p \<and> same_day march_first march_first \<and>
                same_day march_tenth march_tenth)"
    by (simp add: valid_datetime_def march_first_def march_tenth_def a_project_def)
  have y: "decimal 2024 = ''2024''"
    by (simp add: decimal.simps digit_char_def)
  have key: "''compute_usage.'' @ openstack_id ?p @ ''.'' @ strftime_Y_b_d march_first @ ''-'' @
               strftime_Y_b_d march_tenth = ''compute_usage.t1.2024-Mar-01-2024-Mar-10''"
    by (simp add: a_project_def strftime_Y_b_d_def march_first_def march_tenth_def y
          month_abbr_def digit_char_def)
  have tenant: "openstack_id ?p = ''t1''" by (simp add: a_project_def)
  have start: "calls ?w = []" "cache ?w = Map.empty" "clock ?w = 1000"
    by (simp_all add: fresh_world_def)
  have timeout: "REPORTING_CACHE_TIMEOUT ?e = Some 3600" by (simp add: steady_def)
  note inst = get_compute_usage_cached [OF prov win miss fetch first ttl second days]
  from inst have c1: "fst ?first = Inr (Some [active_small])" by (rule conjunct1)
  from inst have "calls (snd ?first) = calls ?w @
      [Openstack_get_compute_usage_for_project (openstack_id ?p) march_first march_tenth]"
    by blast
  then have c2: "calls (snd ?first) =
      [Openstack_get_compute_usage_for_project ''t1'' march_first march_tenth]"
    by (simp only: tenant start append_Nil)
  from inst have "cache (snd ?first) =
      (cache ?w)(''compute_usage.'' @ openstack_id ?p @ ''.'' @ strftime_Y_b_d march_first @ ''-'' @
                 strftime_Y_b_d march_tenth \<mapsto>
                   ([active_small], map_option (\<lambda>ttl. clock ?w + ttl) (REPORTING_CACHE_TIMEOUT ?e)))"
    by blast
  then have c3: "cache (snd ?first) =
      [''compute_usage.t1.2024-Mar-01-2024-Mar-10'' \<mapsto> ([active_small], Some 4600)]"
    unfolding key by (simp add: start timeout)
  from inst have c4: "get_compute_usage ?e ?p (Some nine_o_clock) (Some march_tenth) ?w2 =
      (Inr (Some [active_small]), ?w2)"
    by blast
  from inst have "\<forall>T' s' t'. valid_datetime march_first \<and> valid_datetime march_tenth \<and>
        valid_datetime s' \<and> valid_datetime t' \<and>
        \<not> (T' = openstack_id ?p \<and> same_day march_first s' \<and> same_day march_tenth t') \<longrightarrow>
        cache (snd ?first) (cache_key T' s' t') = cache ?w (cache_key T' s' t')"
    by blast
  with v have "cache (snd ?first) (cache_key ''t2'' march_first march_tenth) =
      cache ?w (cache_key ''t2'' march_first march_tenth)"
    by blast
  then have c5: "cache (snd ?first) (cache_key ''t2'' march_first march_tenth) = None"
    by (simp add: start)
  from c1 c2 c3 c4 c5 show ?thesis by (simp only: simp_thms)
qed

text \<open>
  Claim C9, run on the code: at 13:45:30.123456 on 15 March 2024, with neither start nor
  end supplied, the usage source is asked for the window from 1 March 00:00:00.123456 to
  15 March 00:00:00.123456. The \<^verbatim>\<open>replace\<close> calls reset hour, minute and second and
  leave the microsecond of the clock reading in place.
\<close>

theorem default_window_keeps_microsecond:
  "calls (snd (get_compute_usage (steady []) (a_project 1 ''alpha'' (Some 1) ''t1'') None None
          (fresh_world two_projects))) =
     [Openstack_get_compute_usage_for_project ''t1''
        \<lparr>year = 2024, month = 3, day = 1, hour = 0, minute = 0, second = 0, microsecond = 123456\<rparr>
        \<lparr>year = 2024, month = 3, day = 15, hour = 0, minute = 0, second = 0, microsecond = 123456\<rparr>]"
  by (simp add: get_compute_usage_def Let_def cache_get_def fresh_world_def
        steady_def a_project_def cache_set_def record_call_def afternoon_def)

section \<open>Usage: summary\<close>

lemma list_map_length: "list_map f xs = Inr ys \<Longrightarrow> length ys = length xs"
  by (induction xs arbitrary: ys) (auto split: sum.splits)

text \<open>
  Whatever the states of the items, a summary counts every item of the raw list, and a
  raw list that is not empty never gives \<^verbatim>\<open>None\<close>: the second test of
  \<^verbatim>\<open>server_usages\<close> always succeeds.
\<close>

lemma summarise_total:
  "summarise (Some raw) = Inr (Some s) \<Longrightarrow> total s = length raw"
  by (cases raw) (auto simp: summarise_def dest: list_map_length split: sum.splits if_splits)

lemma summarise_not_None:
  "raw \<noteq> [] \<Longrightarrow> summarise (Some raw) \<noteq> Inr None"
  by (cases raw) (auto simp: summarise_def split: sum.splits)

lemma filter_active_cases:
  "filter_active it = Inr r \<Longrightarrow> r = (if active_item it then Some it else None)"
  by (auto simp: filter_active_def getitem_def active_item_def split: option.splits if_splits)

lemma active_nonempty: "active_item it \<Longrightarrow> it \<noteq> []"
  by (auto simp: active_item_def)

text \<open>The sums are over the active items only: the generator skips the \<^verbatim>\<open>None\<close> entries.\<close>

lemma sum_key_active:
  "list_map filter_active raw = Inr ys \<Longrightarrow>
   (\<And>it. it \<in> set raw \<Longrightarrow> active_item it \<Longrightarrow> \<exists>n. map_of it k = Some (PyInt n)) \<Longrightarrow>
   sum_key k acc ys = Inr (acc + sum_list (map (int_field k) (filter active_item raw)))"
proof (induction raw arbitrary: ys acc)
  case Nil
  then show ?case by simp
next
  case (Cons it raw)
  from Cons.prems(1) obtain r rs where r: "filter_active it = Inr r"
    and rs: "list_map filter_active raw = Inr rs" and ys: "ys = r # rs"
    by (auto split: sum.splits)
  have ih: "sum_key k a rs = Inr (a + sum_list (map (int_field k) (filter active_item raw)))" for a
    using Cons.IH [OF rs] Cons.prems(2) by simp
  show ?case
  proof (cases "active_item it")
    case True
    with Cons.prems(2) obtain n where n: "map_of it k = Some (PyInt n)" by auto
    from True filter_active_cases [OF r] have "r = Some it" by simp
    moreover from n have "int_field k it = n" by (simp add: int_field_def)
    ultimately show ?thesis
      using True n ih by (simp add: ys active_nonempty getitem_def)
  next
    case False
    with filter_active_cases [OF r] have "r = None" by simp
    with False ih show ?thesis by (simp add: ys)
  qed
qed

lemma list_map_filter_active:
  "(\<And>it. it \<in> set raw \<Longrightarrow> map_of it ''state'' \<noteq> None) \<Longrightarrow>
   list_map filter_active raw = Inr (map (\<lambda>it. if active_item it then Some it else None) raw)"
proof (induction raw)
  case Nil
  then show ?case by simp
next
  case (Cons it raw)
  then obtain v where "map_of it ''state'' = Some v" by fastforce
  then have "filter_active it = Inr (if active_item it then Some it else None)"
    by (simp add: filter_active_def getitem_def active_item_def)
  with Cons show ?case by simp
qed

text \<open>
  What \<^verbatim>\<open>usage_summary\<close> computes from a raw list that is not empty and whose items
  are well formed: the sums range over the active items, the total over all items.
\<close>

lemma summarise_value:
  assumes ne: "raw \<noteq> []"
    and st: "\<And>it. it \<in> set raw \<Longrightarrow> map_of it ''state'' \<noteq> None"
    and mem: "\<And>it. it \<in> set raw \<Longrightarrow> active_item it \<Longrightarrow> \<exists>n. map_of it ''memory_mb'' = Some (PyInt n)"
    and cpu: "\<And>it. it \<in> set raw \<Longrightarrow> active_item it \<Longrightarrow> \<exists>n. map_of it ''vcpus'' = Some (PyInt n)"
  shows "summarise (Some raw) =
           Inr (Some \<lparr>total = length raw,
                      ram = sum_list (map (int_field ''memory_mb'') (filter active_item raw)),
                      vcpus = sum_list (map (int_field ''vcpus'') (filter active_item raw))\<rparr>)"
proof -
  let ?ys = "map (\<lambda>it. if active_item it then Some it else None) raw"
  have m: "list_map filter_active raw = Inr ?ys"
    using st by (rule list_map_filter_active)
  have r: "sum_key ''memory_mb'' 0 ?ys =
             Inr (sum_list (map (int_field ''memory_mb'') (filter active_item raw)))"
    using sum_key_active [OF m mem, of 0] by simp
  have v: "sum_key ''vcpus'' 0 ?ys =
             Inr (sum_list (map (int_field ''vcpus'') (filter active_item raw)))"
    using sum_key_active [OF m cpu, of 0] by simp
  from ne obtain x xs where raw: "raw = x # xs" by (cases raw) auto
  have "?ys \<noteq> []" using ne by simp
  with m r v show ?thesis
    unfolding summarise_def raw by (simp del: list_map.simps sum_key.simps)
qed

text \<open>
  Claim C2, run on the code: the usage source answers with one item, in state
  \<^verbatim>\<open>shutoff\<close>. No item is active, and \<^verbatim>\<open>usage_summary\<close> returns a summary that
  counts one instance with no memory and no cpu, where the claim says it returns
  \<^verbatim>\<open>None\<close>.
\<close>

theorem usage_summary_only_inactive:
  "filter active_item [shutoff_large] = [] \<and>
   fst (usage_summary (steady [shutoff_large]) (a_project 1 ''alpha'' (Some 1) ''t1'') None None
          (fresh_world two_projects)) = Inr (Some \<lparr>total = 1, ram = 0, vcpus = 0\<rparr>)"
  by (simp add: usage_summary_def get_compute_usage_def Let_def cache_get_def fresh_world_def
        steady_def a_project_def summarise_def filter_active_def getitem_def shutoff_large_def
        active_item_def)

text \<open>
  Claim C3, run on the code at the input the claim names: one active item (512 MB, 2
  cpus) and one shut off (1024 MB, 4 cpus). The sums are those of the active item; the
  total is 2, the length of the raw list, where the claim says 1.
\<close>

theorem usage_summary_counts_inactive:
  "fst (usage_summary (steady [active_small, shutoff_large]) (a_project 1 ''alpha'' (Some 1) ''t1'')
          None None (fresh_world two_projects)) = Inr (Some \<lparr>total = 2, ram = 512, vcpus = 2\<rparr>)"
  by (simp add: usage_summary_def get_compute_usage_def Let_def cache_get_def fresh_world_def
        steady_def a_project_def summarise_def filter_active_def getitem_def shutoff_large_def
        active_small_def)

section \<open>Provisioning\<close>

text \<open>
  Claim C7: on a project that has an OpenStack id, \<^verbatim>\<open>create_openstack_project\<close> returns
  \<^verbatim>\<open>None\<close> without raising, leaves the project as it is, and changes nothing in the
  world but the log, which gains the warning: no call reaches a collaborator, and the
  database and the cache are untouched.
\<close>

theorem create_openstack_project_noop:
  "openstack_id self \<noteq> [] \<Longrightarrow>
     create_openstack_project e self w =
       (Inr None, self, w\<lparr>warnings := warnings w @ [already_has_id self]\<rparr>)"
  by (simp add: create_openstack_project_def)

text \<open>Project alpha has the id \<open>t1\<close>: nothing is returned and no call is made.\<close>

theorem create_openstack_project_noop_witness:
  "openstack_id (a_project 1 ''alpha'' (Some 1) ''t1'') \<noteq> [] \<and>
   fst (create_openstack_project (steady []) (a_project 1 ''alpha'' (Some 1) ''t1'')
          (fresh_world two_projects)) = Inr None \<and>
   calls (snd (snd (create_openstack_project (steady []) (a_project 1 ''alpha'' (Some 1) ''t1'')
          (fresh_world two_projects)))) = []"
proof -
  have h: "openstack_id (a_project 1 ''alpha'' (Some 1) ''t1'') \<noteq> []"
    by (simp add: a_project_def)
  from create_openstack_project_noop [OF h] h show ?thesis
    by (simp add: fresh_world_def)
qed

text \<open>
  Claim C8: when the call to the OpenStack client raises, \<^verbatim>\<open>enabled_on_openstack\<close> is
  \<^verbatim>\<open>False\<close>; when it returns a tenant, the property is the tenant's \<^verbatim>\<open>enabled\<close> flag;
  in no case does the property raise.
\<close>

theorem enabled_on_openstack_degrades:
  "(os_get_project e (length (calls w)) (openstack_id self) = Inl x \<longrightarrow>
      fst (enabled_on_openstack e self w) = Inr False) \<and>
   (os_get_project e (length (calls w)) (openstack_id self) = Inr t \<longrightarrow>
      fst (enabled_on_openstack e self w) = Inr (tenant_enabled t)) \<and>
   fst (enabled_on_openstack e self w) \<noteq> Inl y"
  by (simp add: enabled_on_openstack_def Let_def split: sum.splits)

text \<open>With the client down the property is false; with the client up and the tenant enabled it is true.\<close>

theorem enabled_on_openstack_degrades_witness:
  "os_get_project unreachable (length (calls (fresh_world two_projects)))
      (openstack_id (a_project 1 ''alpha'' (Some 1) ''t1'')) = Inl (ServiceError ''ConnectFailure'') \<and>
   fst (enabled_on_openstack unreachable (a_project 1 ''alpha'' (Some 1) ''t1'')
          (fresh_world two_projects)) = Inr False \<and>
   os_get_project (steady []) (length (calls (fresh_world two_projects)))
      (openstack_id (a_project 1 ''alpha'' (Some 1) ''t1'')) = Inr \<lparr>tenant_id = ''t1'', tenant_enabled = True\<rparr> \<and>
   fst (enabled_on_openstack (steady []) (a_project 1 ''alpha'' (Some 1) ''t1'')
          (fresh_world two_projects)) = Inr True"
  using enabled_on_openstack_degrades [of unreachable "fresh_world two_projects"
          "a_project 1 ''alpha'' (Some 1) ''t1''" "ServiceError ''ConnectFailure''" undefined undefined]
    enabled_on_openstack_degrades [of "steady []" "fresh_world two_projects"
          "a_project 1 ''alpha'' (Some 1) ''t1''" undefined "\<lparr>tenant_id = ''t1'', tenant_enabled = True\<rparr>" undefined]
  by (simp add: unreachable_def steady_def fresh_world_def a_project_def)

section \<open>Memberships and the provisioning service\<close>

lemma find_project_pk: "find_project d i = Some p \<Longrightarrow> pk p = i"
  by (auto simp: find_project_def find_Some_iff)

text \<open>
  A save that succeeds makes one call, \<^verbatim>\<open>save_project\<close> of the parent project; a delete
  that succeeds makes one call, \<^verbatim>\<open>delete_project\<close> of the parent project.
\<close>

lemma ProjectMembership_save_calls:
  "ProjectMembership_save e m w = (Inr m', w') \<Longrightarrow>
     calls w' = calls w @ [Gardener_save_project (project m)]"
  by (auto simp: ProjectMembership_save_def GardenerService_save_project_def record_call_def
        Let_def dest: find_project_pk split: option.splits)

lemma ProjectMembership_delete_calls:
  "ProjectMembership_delete e m w = (Inr u, w') \<Longrightarrow>
     calls w' = calls w @ [Gardener_delete_project (project m)]"
  by (auto simp: ProjectMembership_delete_def delete_project_membership_def
        GardenerService_delete_project_def record_call_def atomic_def
        Let_def dest: find_project_pk split: option.splits)

text \<open>
  Claim C5, run on the code: saving a membership of project 1 calls
  \<^verbatim>\<open>GardenerService.save_project\<close> for project 1, once; deleting a membership of
  project 1 calls \<^verbatim>\<open>GardenerService.delete_project\<close> for project 1, once, where the
  claim says the project is synchronised and not deleted.
\<close>

theorem membership_delete_calls_delete_project:
  "ProjectMembership_save (steady []) (a_membership 3 1 11 READ) (fresh_world two_projects) =
     (Inr (a_membership 3 1 11 READ),
      (fresh_world two_projects)
        \<lparr>db := two_projects\<lparr>project_memberships :=
                 project_memberships two_projects @ [a_membership 3 1 11 READ]\<rparr>,
         calls := [Gardener_save_project 1]\<rparr>) \<and>
   ProjectMembership_delete (steady []) (a_membership 1 1 10 WRITE) (fresh_world two_projects) =
     (Inr (),
      (fresh_world two_projects)
        \<lparr>db := two_projects\<lparr>project_memberships := [a_membership 2 2 10 ADMIN]\<rparr>,
         calls := [Gardener_delete_project 1]\<rparr>)"
  by (simp add: ProjectMembership_delete_def ProjectMembership_save_def
        delete_project_membership_def GardenerService_delete_project_def
        GardenerService_save_project_def find_project_def record_call_def atomic_def
        steady_def fresh_world_def two_projects_def a_project_def a_membership_def Let_def)

text \<open>
  Claim C4, run on the code: project 1 has team 10 with role write (row 1), project 2
  has team 10 with role admin (row 2), and project 1 is updated with the list
  \<^verbatim>\<open>[{team: 11, role: read}]\<close>. The update succeeds; afterwards the table holds the new
  membership of project 1, under the key 3, and nothing else. The membership of project
  2 has been deleted with that of project 1: the log shows the project saved, then
  \<^verbatim>\<open>delete_project\<close> sent for row 2 (project 2) and for row 1 (project 1), then the
  save of the new row. The claim says the memberships of every other project remain
  unchanged.
\<close>

theorem update_deletes_memberships_of_other_projects:
  "a_membership 2 2 10 ADMIN \<in> set (project_memberships two_projects) \<and>
   fst (ProjectSerializer_update (steady []) (a_project 1 ''alpha'' (Some 1) ''t1'') team_11_read
          (fresh_world two_projects)) =
     Inr ((a_project 1 ''alpha'' (Some 1) ''t1'')\<lparr>modified_at := 1000\<rparr>) \<and>
   project_memberships (db (snd (ProjectSerializer_update (steady [])
      (a_project 1 ''alpha'' (Some 1) ''t1'') team_11_read (fresh_world two_projects)))) =
     [a_membership 3 1 11 READ] \<and>
   calls (snd (ProjectSerializer_update (steady []) (a_project 1 ''alpha'' (Some 1) ''t1'')
      team_11_read (fresh_world two_projects))) =
     [Gardener_save_project 1, Gardener_delete_project 2, Gardener_delete_project 1,
      Gardener_save_project 1]"
  by (simp add: ProjectSerializer_update_def ModelSerializer_update_def Project_save_def
        Model_save_project_def GardenerService_save_project_def queryset_delete_def
        send_post_delete_def delete_project_membership_def GardenerService_delete_project_def
        update_or_create_def create_membership_def ProjectMembership_save_def find_project_def
        record_call_def steady_def fresh_world_def two_projects_def a_project_def
        a_membership_def Let_def team_11_read_def atomic_def)

end
